theory Spec2Isabelle
  imports Complex_Main
begin

section \<open>Conventions of the embedding\<close>

text \<open>
  The theory embeds \<^verbatim>\<open>pyrr/matrix33.py\<close> and \<^verbatim>\<open>pyrr/ray.py\<close>.

  \<^item> A floating-point scalar is a \<open>real\<close>: the arithmetic is exact, so rounding and
    overflow are not represented.
  \<^item> Where the code reads the \<^verbatim>\<open>dtype\<close> of an argument to build its result (the vector
    of \<^verbatim>\<open>apply_to_vector\<close>, the arguments of \<^verbatim>\<open>ray.create\<close> and
    \<^verbatim>\<open>ray.create_from_line\<close>), an array is of an integer or of a floating dtype:
    \<open>array1d\<close> and \<open>array2d\<close>. Building an array of an integer dtype from floats
    truncates every entry toward zero.
  \<^item> Where the code reads only the entries of an array (a direction, a quaternion), the
    array is the list of its entries, \<open>vec\<close>. A 3x3 array is floating-point: the record
    \<open>matrix33\<close>, whose fields carry the names \<^verbatim>\<open>m11 .. m33\<close> that the source's comments
    give to the entries (row first).
  \<^item> A call has one of three outcomes: it raises a Python exception, it returns a value, or
    it returns an array that holds \<^verbatim>\<open>nan\<close> or \<^verbatim>\<open>inf\<close> because a
    float was divided by zero (numpy warns and goes on). The last outcome has no real
    number to stand for it and is kept apart as \<open>NonFinite\<close>.
\<close>

datatype py_error = ValueError | IndexError | LinAlgError

datatype 'a outcome = Raises py_error | NonFinite | Returns 'a

fun and_then :: "'a outcome \<Rightarrow> ('a \<Rightarrow> 'b outcome) \<Rightarrow> 'b outcome" where
  "and_then (Raises e) f = Raises e"
| "and_then NonFinite f = NonFinite"
| "and_then (Returns a) f = f a"

type_synonym vec = "real list"

datatype dtype = int_dtype | float_dtype

datatype array1d = Ints "int list" | Floats "real list"


fun dtype_of :: "array1d \<Rightarrow> dtype" where
  "dtype_of (Ints xs) = int_dtype"
| "dtype_of (Floats xs) = float_dtype"

fun entries_of :: "array1d \<Rightarrow> vec" where
  "entries_of (Ints xs) = map real_of_int xs"
| "entries_of (Floats xs) = xs"



record matrix33 =
  m11 :: real
  m12 :: real
  m13 :: real
  m21 :: real
  m22 :: real
  m23 :: real
  m31 :: real
  m32 :: real
  m33 :: real

section \<open>The numpy operations the modules call\<close>

text \<open>
  \<^verbatim>\<open>np.array(entries, dtype=t)\<close> on floats: an integer dtype truncates every entry toward
  zero, a floating dtype keeps it.
\<close>

definition truncated :: "real \<Rightarrow> int" where
  "truncated x = (if 0 \<le> x then \<lfloor>x\<rfloor> else \<lceil>x\<rceil>)"

fun np_array1d :: "vec \<Rightarrow> dtype \<Rightarrow> array1d" where
  "np_array1d xs int_dtype = Ints (map truncated xs)"
| "np_array1d xs float_dtype = Floats xs"



text \<open>\<^verbatim>\<open>np.linalg.norm(v)\<close> of a one-dimensional array: the Euclidean norm.\<close>

definition linalg_norm :: "vec \<Rightarrow> real" where
  "linalg_norm v = sqrt (sum_list (map (\<lambda>c. c\<^sup>2) v))"

text \<open>
  \<^verbatim>\<open>np.isclose(a, b)\<close> with its default tolerances \<^verbatim>\<open>rtol=1e-05\<close>,
  \<^verbatim>\<open>atol=1e-08\<close>: \<^verbatim>\<open>absolute(a - b) <= (atol + rtol * absolute(b))\<close>.
\<close>

definition isclose :: "real \<Rightarrow> real \<Rightarrow> bool" where
  "isclose a b = (\<bar>a - b\<bar> \<le> 1 / 10 ^ 8 + 1 / 10 ^ 5 * \<bar>b\<bar>)"

text \<open>
  \<^verbatim>\<open>np.dot(vec, mat)\<close> for a one-dimensional \<^verbatim>\<open>vec\<close> and a 3x3 \<^verbatim>\<open>mat\<close>: the row
  vector times the matrix. numpy refuses operands whose shapes are not aligned with a
  \<^verbatim>\<open>ValueError\<close>.
\<close>

fun np_dot :: "vec \<Rightarrow> matrix33 \<Rightarrow> vec outcome" where
  "np_dot [x, y, z] mat =
     Returns [x * m11 mat + y * m21 mat + z * m31 mat,
              x * m12 mat + y * m22 mat + z * m32 mat,
              x * m13 mat + y * m23 mat + z * m33 mat]"
| "np_dot _ mat = Raises ValueError"

text \<open>
  Modelled from the spec: \<^verbatim>\<open>vector.normalise\<close> (\<^verbatim>\<open>pyrr/vector.py\<close> is not among the
  sources). The spec has it scale a vector to unit length, which is the division of every
  component by the Euclidean norm. A vector of norm zero with at least one component
  makes that division \<^verbatim>\<open>0/0\<close>.
\<close>

definition vector_normalise :: "vec \<Rightarrow> vec outcome" where
  "vector_normalise v =
     (if linalg_norm v = 0 \<and> v \<noteq> [] then NonFinite
      else Returns (map (\<lambda>c. c / linalg_norm v) v))"

text \<open>
  \<^verbatim>\<open>np.dot(m1, m2)\<close> for two 3x3 arrays: the matrix product.
\<close>

definition np_dot33 :: "matrix33 \<Rightarrow> matrix33 \<Rightarrow> matrix33" where
  "np_dot33 a b =
     \<lparr>m11 = m11 a * m11 b + m12 a * m21 b + m13 a * m31 b,
      m12 = m11 a * m12 b + m12 a * m22 b + m13 a * m32 b,
      m13 = m11 a * m13 b + m12 a * m23 b + m13 a * m33 b,
      m21 = m21 a * m11 b + m22 a * m21 b + m23 a * m31 b,
      m22 = m21 a * m12 b + m22 a * m22 b + m23 a * m32 b,
      m23 = m21 a * m13 b + m22 a * m23 b + m23 a * m33 b,
      m31 = m31 a * m11 b + m32 a * m21 b + m33 a * m31 b,
      m32 = m31 a * m12 b + m32 a * m22 b + m33 a * m32 b,
      m33 = m31 a * m13 b + m32 a * m23 b + m33 a * m33 b\<rparr>"

text \<open>The determinant of a 3x3 array, expanded along the first row.\<close>

definition det33 :: "matrix33 \<Rightarrow> real" where
  "det33 a =
     m11 a * (m22 a * m33 a - m23 a * m32 a)
     - m12 a * (m21 a * m33 a - m23 a * m31 a)
     + m13 a * (m21 a * m32 a - m22 a * m31 a)"

text \<open>
  Modelled from the spec: \<^verbatim>\<open>numpy.linalg.inv\<close>, the dense inverse of the numeric
  backend (not among the sources). The spec has it return the inverse of the matrix and
  fail with a singular-matrix error when the matrix has no inverse, that is when its
  determinant is zero. The inverse is written as the transposed matrix of cofactors over
  the determinant.
\<close>

definition linalg_inv :: "matrix33 \<Rightarrow> matrix33 outcome" where
  "linalg_inv a =
     (if det33 a = 0 then Raises LinAlgError
      else Returns
        \<lparr>m11 = (m22 a * m33 a - m23 a * m32 a) / det33 a,
         m12 = (m13 a * m32 a - m12 a * m33 a) / det33 a,
         m13 = (m12 a * m23 a - m13 a * m22 a) / det33 a,
         m21 = (m23 a * m31 a - m21 a * m33 a) / det33 a,
         m22 = (m11 a * m33 a - m13 a * m31 a) / det33 a,
         m23 = (m13 a * m21 a - m11 a * m23 a) / det33 a,
         m31 = (m21 a * m32 a - m22 a * m31 a) / det33 a,
         m32 = (m12 a * m31 a - m11 a * m32 a) / det33 a,
         m33 = (m11 a * m22 a - m12 a * m21 a) / det33 a\<rparr>)"

text \<open>
  Modelled from the spec: \<^verbatim>\<open>quaternion.normalise\<close> (\<^verbatim>\<open>pyrr/quaternion.py\<close> is not
  among the sources). The spec has a quaternion of norm other than 1 normalised before the
  conversion; the four components are divided by the Euclidean norm.
\<close>

definition quaternion_normalise :: "vec \<Rightarrow> vec outcome" where
  "quaternion_normalise q =
     (if linalg_norm q = 0 \<and> q \<noteq> [] then NonFinite
      else Returns (map (\<lambda>c. c / linalg_norm q) q))"

section \<open>matrix33\<close>

text \<open>\<^verbatim>\<open>create_identity\<close>: \<^verbatim>\<open>np.identity(3)\<close>.\<close>

definition create_identity :: matrix33 where
  "create_identity =
     \<lparr>m11 = 1, m12 = 0, m13 = 0,
      m21 = 0, m22 = 1, m23 = 0,
      m31 = 0, m32 = 0, m33 = 1\<rparr>"

text \<open>
  \<^verbatim>\<open>create_from_quaternion\<close>. The unpacking \<^verbatim>\<open>x, y, z, w = quat\<close> raises
  \<^verbatim>\<open>ValueError\<close> unless the array has four components; the normalisation before it
  neither raises nor changes the number of components, so the count is tested first.
\<close>

definition create_from_quaternion :: "vec \<Rightarrow> matrix33 outcome" where
  "create_from_quaternion quat =
     (if length quat \<noteq> 4 then Raises ValueError
      else and_then
        (if \<not> isclose (linalg_norm quat) 1 then quaternion_normalise quat else Returns quat)
        (\<lambda>q. let x = q ! 0; y = q ! 1; z = q ! 2; w = q ! 3;
                 y2 = y\<^sup>2; x2 = x\<^sup>2; z2 = z\<^sup>2;
                 xy = x * y; xz = x * z; yz = y * z;
                 wx = w * x; wy = w * y; wz = w * z
             in Returns
               \<lparr>m11 = 1 - 2 * (y2 + z2), m12 = 2 * (xy + wz), m13 = 2 * (xz - wy),
                m21 = 2 * (xy - wz), m22 = 1 - 2 * (x2 + z2), m23 = 2 * (yz + wx),
                m31 = 2 * (xz + wy), m32 = 2 * (yz - wx), m33 = 1 - 2 * (x2 + y2)\<rparr>))"

text \<open>\<^verbatim>\<open>create_from_inverse_of_quaternion\<close>: no normalisation, the same unpacking.\<close>

definition create_from_inverse_of_quaternion :: "vec \<Rightarrow> matrix33 outcome" where
  "create_from_inverse_of_quaternion quat =
     (if length quat \<noteq> 4 then Raises ValueError
      else
        (let x = quat ! 0; y = quat ! 1; z = quat ! 2; w = quat ! 3;
             x2 = x\<^sup>2; y2 = y\<^sup>2; z2 = z\<^sup>2;
             wx = w * x; wy = w * y; xy = x * y;
             wz = w * z; xz = x * z; yz = y * z
         in Returns
           \<lparr>m11 = 1 - 2 * (y2 + z2), m12 = 2 * (xy - wz), m13 = 2 * (xz + wy),
            m21 = 2 * (xy + wz), m22 = 1 - 2 * (x2 + z2), m23 = 2 * (yz - wx),
            m31 = 2 * (xz - wy), m32 = 2 * (yz - wx), m33 = 1 - 2 * (x2 + y2)\<rparr>))"

text \<open>The three axis rotations.\<close>

definition create_from_x_rotation :: "real \<Rightarrow> matrix33" where
  "create_from_x_rotation theta =
     (let cosT = cos theta; sinT = sin theta
      in \<lparr>m11 = 1, m12 = 0, m13 = 0,
          m21 = 0, m22 = cosT, m23 = - sinT,
          m31 = 0, m32 = sinT, m33 = cosT\<rparr>)"

definition create_from_y_rotation :: "real \<Rightarrow> matrix33" where
  "create_from_y_rotation theta =
     (let cosT = cos theta; sinT = sin theta
      in \<lparr>m11 = cosT, m12 = 0, m13 = sinT,
          m21 = 0, m22 = 1, m23 = 0,
          m31 = - sinT, m32 = 0, m33 = cosT\<rparr>)"

definition create_from_z_rotation :: "real \<Rightarrow> matrix33" where
  "create_from_z_rotation theta =
     (let cosT = cos theta; sinT = sin theta
      in \<lparr>m11 = cosT, m12 = - sinT, m13 = 0,
          m21 = sinT, m22 = cosT, m23 = 0,
          m31 = 0, m32 = 0, m33 = 1\<rparr>)"

text \<open>
  \<^verbatim>\<open>apply_to_vector\<close>. The product with the floating-point matrix is a floating-point
  array whatever the dtype of \<^verbatim>\<open>vec\<close>. With four components,
  \<^verbatim>\<open>vec[:-1] / vec[-1]\<close> divides the first three by the last one (a true division, also
  of integers); a last component of zero makes the quotients, and every product of the
  matrix with them, \<^verbatim>\<open>nan\<close> or \<^verbatim>\<open>inf\<close>. The result of that branch is built with
  \<^verbatim>\<open>dtype=vec.dtype\<close>.
\<close>

definition apply_to_vector :: "matrix33 \<Rightarrow> array1d \<Rightarrow> array1d outcome" where
  "apply_to_vector mat vec =
     (if length (entries_of vec) = 3 then
        and_then (np_dot (entries_of vec) mat) (\<lambda>r. Returns (Floats r))
      else if length (entries_of vec) = 4 then
        (if last (entries_of vec) = 0 then NonFinite
         else and_then
                (np_dot (map (\<lambda>c. c / last (entries_of vec)) (butlast (entries_of vec))) mat)
                (\<lambda>vec3. Returns (np_array1d [vec3 ! 0, vec3 ! 1, vec3 ! 2, 1] (dtype_of vec))))
      else Raises ValueError)"

text \<open>\<^verbatim>\<open>multiply\<close>: \<^verbatim>\<open>np.dot(m1, m2)\<close>.\<close>

definition multiply :: "matrix33 \<Rightarrow> matrix33 \<Rightarrow> matrix33" where
  "multiply m1 m2 = np_dot33 m1 m2"

text \<open>
  \<^verbatim>\<open>inverse\<close>: \<^verbatim>\<open>np.linalg.inv(mat)\<close>, whose error is not caught. The name carries a
  suffix because \<open>inverse\<close> is the reciprocal of HOL.
\<close>

definition inverse33 :: "matrix33 \<Rightarrow> matrix33 outcome" where
  "inverse33 mat = linalg_inv mat"

text \<open>
  \<^verbatim>\<open>create_direction_scale\<close>. The result of \<^verbatim>\<open>vector.normalise\<close> is bound to the local
  name \<^verbatim>\<open>vector3\<close>, which the function does not read again; the matrix is built from
  \<^verbatim>\<open>direction[0]\<close>, \<^verbatim>\<open>direction[1]\<close> and \<^verbatim>\<open>direction[2]\<close>, and an index past the end
  of \<^verbatim>\<open>direction\<close> raises \<^verbatim>\<open>IndexError\<close>. The float power \<^verbatim>\<open>**2.\<close> is the square.
  Python reads \<^verbatim>\<open>a * b * c**2.\<close> as \<^verbatim>\<open>(a * b) * (c**2.)\<close>.
\<close>

definition create_direction_scale :: "vec \<Rightarrow> real \<Rightarrow> matrix33 outcome" where
  "create_direction_scale direction scale =
     (let vector3 = (if \<not> isclose (linalg_norm direction) 1
                     then Some (vector_normalise direction) else None);
          scaleMinus1 = scale - 1
      in if length direction < 3 then Raises IndexError
         else Returns
           \<lparr>m11 = 1 + scaleMinus1 * (direction ! 0)\<^sup>2,
            m12 = scaleMinus1 * direction ! 0 * (direction ! 1)\<^sup>2,
            m13 = scaleMinus1 * direction ! 0 * direction ! 2,
            m21 = scaleMinus1 * direction ! 0 * direction ! 1,
            m22 = 1 + scaleMinus1 * direction ! 1,
            m23 = scaleMinus1 * direction ! 1 * direction ! 2,
            m31 = scaleMinus1 * direction ! 0 * direction ! 2,
            m32 = scaleMinus1 * direction ! 1 * direction ! 2,
            m33 = 1 + scaleMinus1 * (direction ! 2)\<^sup>2\<rparr>)"

text \<open>
  The transpose \<^verbatim>\<open>mat.T\<close> of a 3x3 array, which the module's documentation names as
  the way to change between the row-major and the column-major layout.
\<close>

definition transpose33 :: "matrix33 \<Rightarrow> matrix33" where
  "transpose33 mat =
     \<lparr>m11 = m11 mat, m12 = m21 mat, m13 = m31 mat,
      m21 = m12 mat, m22 = m22 mat, m23 = m32 mat,
      m31 = m13 mat, m32 = m23 mat, m33 = m33 mat\<rparr>"

text \<open>
  The directional scaling as the documentation of \<^verbatim>\<open>create_direction_scale\<close> describes
  it, written without a matrix: the part of \<open>v\<close> along the direction \<open>d\<close> is scaled by \<open>k\<close>
  and the part orthogonal to \<open>d\<close> is kept, \<open>k (v . d) d + (v - (v . d) d)\<close>. It is the
  yardstick the matrix of the source is compared with, not a translation of the source.
\<close>

definition inner_product :: "vec \<Rightarrow> vec \<Rightarrow> real" where
  "inner_product v d = sum_list (map2 (\<lambda>a b. a * b) v d)"

definition scaled_along :: "vec \<Rightarrow> real \<Rightarrow> vec \<Rightarrow> vec" where
  "scaled_along d k v =
     map2 (\<lambda>a b. k * inner_product v d * b + (a - inner_product v d * b)) v d"

section \<open>ray\<close>



text \<open>
  \<^verbatim>\<open>invert\<close> updates an array in place, so it is given over a store of arrays. An array
  has zero, one or two dimensions. A reference is an address of the store; \<open>next_addr\<close>
  is the first address not yet in use, and the addresses below it are the live arrays.
\<close>

datatype ndarray = Array0 real | Array1 vec | Array2 "vec list"

type_synonym addr = nat

record store =
  cells :: "addr \<Rightarrow> ndarray"
  next_addr :: addr

definition alloc :: "store \<Rightarrow> ndarray \<Rightarrow> addr \<times> store" where
  "alloc s a = (next_addr s, s\<lparr>cells := (cells s)(next_addr s := a), next_addr := Suc (next_addr s)\<rparr>)"

text \<open>\<^verbatim>\<open>a.copy()\<close>: a new array with the contents of \<open>a\<close>.\<close>

definition ndarray_copy :: "store \<Rightarrow> addr \<Rightarrow> addr \<times> store" where
  "ndarray_copy s a = alloc s (cells s a)"

text \<open>
  \<^verbatim>\<open>a[i]\<close> for an index \<open>i\<close> that is not negative: an entry of a one-dimensional array,
  a row of a two-dimensional one, \<^verbatim>\<open>IndexError\<close> past the end or on a scalar.
\<close>

fun getitem :: "ndarray \<Rightarrow> nat \<Rightarrow> ndarray outcome" where
  "getitem (Array0 x) i = Raises IndexError"
| "getitem (Array1 xs) i = (if i < length xs then Returns (Array0 (xs ! i)) else Raises IndexError)"
| "getitem (Array2 rows) i = (if i < length rows then Returns (Array1 (rows ! i)) else Raises IndexError)"

text \<open>\<^verbatim>\<open>a[i] *= c\<close>: the entry, or every entry of the row, is multiplied by \<open>c\<close>.\<close>

fun imul_item :: "ndarray \<Rightarrow> nat \<Rightarrow> real \<Rightarrow> ndarray outcome" where
  "imul_item (Array0 x) i c = Raises IndexError"
| "imul_item (Array1 xs) i c =
     (if i < length xs then Returns (Array1 (xs[i := xs ! i * c])) else Raises IndexError)"
| "imul_item (Array2 rows) i c =
     (if i < length rows then Returns (Array2 (rows[i := map (\<lambda>x. x * c) (rows ! i)]))
      else Raises IndexError)"

text \<open>
  \<^verbatim>\<open>invert\<close>: \<^verbatim>\<open>r2 = r.copy()\<close>, \<^verbatim>\<open>r2[1] *= -1\<close>, \<^verbatim>\<open>return r2\<close>. The store is
  returned with every outcome.
\<close>

definition ray_invert :: "store \<Rightarrow> addr \<Rightarrow> addr outcome \<times> store" where
  "ray_invert s r =
     (let (r2, s1) = ndarray_copy s r
      in case imul_item (cells s1 r2) 1 (- 1) of
           Returns a \<Rightarrow> (Returns r2, s1\<lparr>cells := (cells s1)(r2 := a)\<rparr>)
         | Raises e \<Rightarrow> (Raises e, s1)
         | NonFinite \<Rightarrow> (NonFinite, s1))"

text \<open>\<^verbatim>\<open>start\<close> and \<^verbatim>\<open>direction\<close>: \<^verbatim>\<open>ray[0].copy()\<close> and \<^verbatim>\<open>ray[1].copy()\<close>.\<close>

definition ray_start :: "store \<Rightarrow> addr \<Rightarrow> addr outcome \<times> store" where
  "ray_start s ray =
     (case getitem (cells s ray) 0 of
        Returns a \<Rightarrow> (let (p, s1) = alloc s a in (Returns p, s1))
      | Raises e \<Rightarrow> (Raises e, s)
      | NonFinite \<Rightarrow> (NonFinite, s))"

definition ray_direction :: "store \<Rightarrow> addr \<Rightarrow> addr outcome \<times> store" where
  "ray_direction s ray =
     (case getitem (cells s ray) 1 of
        Returns a \<Rightarrow> (let (p, s1) = alloc s a in (Returns p, s1))
      | Raises e \<Rightarrow> (Raises e, s)
      | NonFinite \<Rightarrow> (NonFinite, s))"

text \<open>
  A store for examples: one live array at address 0, the ray from the point (1, 2, 3)
  along (0, 0, 1).
\<close>

definition example_store :: store where
  "example_store =
     \<lparr>cells = (\<lambda>_. Array0 0)(0 := Array2 [[1, 2, 3], [0, 0, 1]]), next_addr = 1\<rparr>"

section \<open>Evaluation lemmas\<close>

lemma apply_to_vector_3:
  "entries_of v = [x, y, z] \<Longrightarrow>
   apply_to_vector mat v =
     Returns (Floats [x * m11 mat + y * m21 mat + z * m31 mat,
                      x * m12 mat + y * m22 mat + z * m32 mat,
                      x * m13 mat + y * m23 mat + z * m33 mat])"
  by (simp add: apply_to_vector_def)




lemma truncated_of_int: "truncated (real_of_int n) = n"
  by (simp add: truncated_def)

lemma truncated_numeral:
  "truncated 0 = 0" "truncated 1 = 1" "truncated (numeral k) = numeral k"
  by (simp_all add: truncated_def)

lemma entries_of_small_arrays:
  "entries_of (np_array1d [0, 1, 0] t) = [0, 1, 0]"
  "entries_of (np_array1d [0, 0, 1] t) = [0, 0, 1]"
  "entries_of (np_array1d [1, 0, 0] t) = [1, 0, 0]"
  "entries_of (np_array1d [5, 2, 3] t) = [5, 2, 3]"
  by (cases t; simp add: truncated_numeral)+

section \<open>Rotations about the axes\<close>

text \<open>
  C3. The matrices are applied to row vectors, \<^verbatim>\<open>np.dot(vec, mat)\<close>, so a unit vector
  picks a row of the matrix. For every angle, \<^verbatim>\<open>create_from_x_rotation\<close> sends (0,1,0)
  to (0, cos, -sin), \<^verbatim>\<open>create_from_y_rotation\<close> sends (0,0,1) to (-sin, 0, cos) and
  \<^verbatim>\<open>create_from_z_rotation\<close> sends (1,0,0) to (cos, -sin, 0): the sine enters with a
  minus sign in all three. The unit vector may be of either dtype.
\<close>

theorem axis_rotation_rows:
  "apply_to_vector (create_from_x_rotation theta) (np_array1d [0, 1, 0] t)
     = Returns (Floats [0, cos theta, - sin theta])
   \<and> apply_to_vector (create_from_y_rotation theta) (np_array1d [0, 0, 1] t)
     = Returns (Floats [- sin theta, 0, cos theta])
   \<and> apply_to_vector (create_from_z_rotation theta) (np_array1d [1, 0, 0] t)
     = Returns (Floats [cos theta, - sin theta, 0])"
  by (simp add: apply_to_vector_3 entries_of_small_arrays create_from_x_rotation_def create_from_y_rotation_def
      create_from_z_rotation_def Let_def)

text \<open>
  At a quarter turn the stated images (0, cos, sin), (sin, 0, cos) and (cos, sin, 0) are
  not what the three functions return.
\<close>

theorem axis_rotation_plus_sine_fails:
  "apply_to_vector (create_from_x_rotation (pi / 2)) (Floats [0, 1, 0])
     \<noteq> Returns (Floats [0, cos (pi / 2), sin (pi / 2)])
   \<and> apply_to_vector (create_from_y_rotation (pi / 2)) (Floats [0, 0, 1])
     \<noteq> Returns (Floats [sin (pi / 2), 0, cos (pi / 2)])
   \<and> apply_to_vector (create_from_z_rotation (pi / 2)) (Floats [1, 0, 0])
     \<noteq> Returns (Floats [cos (pi / 2), sin (pi / 2), 0])"
  by (simp add: apply_to_vector_3 entries_of_small_arrays create_from_x_rotation_def create_from_y_rotation_def
      create_from_z_rotation_def Let_def)

section \<open>Directional scaling\<close>

text \<open>
  C4. For every direction (x, y, z), of norm 1 or not, and every scale k, the matrix
  returned by \<^verbatim>\<open>create_direction_scale\<close> is the closed form of the source evaluated on
  the components x, y, z as they were passed: the normalised vector that the branch for a
  norm away from 1 computes does not enter the result. The direction (2, 0, 0) takes that
  branch, divided by its norm it is (1, 0, 0), and the matrix returned for (2, 0, 0) is
  not the matrix returned for (1, 0, 0).
\<close>

theorem direction_scale_uses_raw_components:
  "create_direction_scale [x, y, z] k =
     Returns \<lparr>m11 = 1 + (k - 1) * x\<^sup>2, m12 = (k - 1) * x * y\<^sup>2, m13 = (k - 1) * x * z,
              m21 = (k - 1) * x * y, m22 = 1 + (k - 1) * y, m23 = (k - 1) * y * z,
              m31 = (k - 1) * x * z, m32 = (k - 1) * y * z, m33 = 1 + (k - 1) * z\<^sup>2\<rparr>
   \<and> \<not> isclose (linalg_norm [2, 0, 0]) 1
   \<and> map (\<lambda>c. c / linalg_norm [2, 0, 0]) [2, 0, 0] = [1, 0, 0]
   \<and> create_direction_scale [2, 0, 0] 0 \<noteq> create_direction_scale [1, 0, 0] 0"
  by (simp add: create_direction_scale_def Let_def linalg_norm_def isclose_def)

text \<open>
  C5. The direction (1, 0, 0) has norm 1, \<^verbatim>\<open>create_direction_scale((1,0,0), 0.0)\<close> is the
  diagonal matrix with the entries 0, 1, 1, and applying it to (5, 2, 3), of either dtype,
  gives (0, 2, 3): the x component is flattened and the y and z components are kept.
\<close>

theorem flatten_x_example:
  "linalg_norm [1, 0, 0] = 1
   \<and> create_direction_scale [1, 0, 0] 0 =
       Returns \<lparr>m11 = 0, m12 = 0, m13 = 0, m21 = 0, m22 = 1, m23 = 0, m31 = 0, m32 = 0, m33 = 1\<rparr>
   \<and> and_then (create_direction_scale [1, 0, 0] 0)
        (\<lambda>mat. apply_to_vector mat (np_array1d [5, 2, 3] t))
       = Returns (Floats [0, 2, 3])"
  by (simp add: linalg_norm_def create_direction_scale_def Let_def apply_to_vector_3
      entries_of_small_arrays)

text \<open>
  C1. A matrix that scales by k along a unit direction d and keeps the orthogonal
  complement sends v to \<open>scaled_along d k v\<close>. The matrix of \<^verbatim>\<open>create_direction_scale\<close>
  does not: its entry m22 is \<open>1 + (k - 1) d\<^sub>y\<close>, without the square that m11 and m33
  have, and its entry m12 is \<open>(k - 1) d\<^sub>x d\<^sub>y\<^sup>2\<close>, with a square that the mirrored entry
  m21 does not have. For the unit direction (0, -1, 0) and the scale 0 the entry m22 is 2,
  so (0, 1, 0) is sent to (0, 2, 0), where flattening along the direction gives (0, 0, 0).
\<close>

theorem direction_scale_doubles_instead_of_flattening:
  "linalg_norm [0, - 1, 0] = 1
   \<and> create_direction_scale [0, - 1, 0] 0 =
       Returns \<lparr>m11 = 1, m12 = 0, m13 = 0, m21 = 0, m22 = 2, m23 = 0, m31 = 0, m32 = 0, m33 = 1\<rparr>
   \<and> and_then (create_direction_scale [0, - 1, 0] 0)
        (\<lambda>mat. apply_to_vector mat (np_array1d [0, 1, 0] t))
       = Returns (Floats [0, 2, 0])
   \<and> scaled_along [0, - 1, 0] 0 [0, 1, 0] = [0, 0, 0]"
  by (simp add: linalg_norm_def create_direction_scale_def Let_def apply_to_vector_3
      entries_of_small_arrays scaled_along_def inner_product_def)

text \<open>
  The entry m12 shows for a direction off the axes: with the unit direction (3/5, 4/5, 0)
  and the scale 0 the vector (1, 0, 0) is sent to (16/25, -48/125, 0), where flattening
  along the direction gives (16/25, -12/25, 0).
\<close>

lemma direction_scale_off_axis:
  "linalg_norm [3 / 5, 4 / 5, 0] = 1
   \<and> and_then (create_direction_scale [3 / 5, 4 / 5, 0] 0)
        (\<lambda>mat. apply_to_vector mat (np_array1d [1, 0, 0] t))
       = Returns (Floats [16 / 25, - 48 / 125, 0])
   \<and> scaled_along [3 / 5, 4 / 5, 0] 0 [1, 0, 0] = [16 / 25, - 12 / 25, 0]"
  by (simp add: linalg_norm_def create_direction_scale_def Let_def apply_to_vector_3
      entries_of_small_arrays scaled_along_def inner_product_def power2_eq_square)

section \<open>Quaternions\<close>

text \<open>
  C2. For a unit quaternion the transpose of \<^verbatim>\<open>create_from_quaternion\<close> has the entry
  m32 \<open>= 2 (y z + w x)\<close>; \<^verbatim>\<open>create_from_inverse_of_quaternion\<close> computes
  \<open>2 (y z - w x)\<close> there, under a comment that gives the sum. At the unit quaternion
  (x, y, z, w) = (3/5, 0, 0, 4/5) the two matrices are 24/25 and -24/25 in that entry.
\<close>

theorem inverse_of_quaternion_is_not_transpose:
  "linalg_norm [3 / 5, 0, 0, 4 / 5] = 1
   \<and> and_then (create_from_quaternion [3 / 5, 0, 0, 4 / 5]) (\<lambda>mat. Returns (transpose33 mat)) =
       Returns \<lparr>m11 = 1, m12 = 0, m13 = 0,
                m21 = 0, m22 = 7 / 25, m23 = - 24 / 25,
                m31 = 0, m32 = 24 / 25, m33 = 7 / 25\<rparr>
   \<and> create_from_inverse_of_quaternion [3 / 5, 0, 0, 4 / 5] =
       Returns \<lparr>m11 = 1, m12 = 0, m13 = 0,
                m21 = 0, m22 = 7 / 25, m23 = - 24 / 25,
                m31 = 0, m32 = - 24 / 25, m33 = 7 / 25\<rparr>"
  by (simp add: linalg_norm_def isclose_def create_from_quaternion_def
      create_from_inverse_of_quaternion_def transpose33_def Let_def power2_eq_square)

text \<open>
  The other eight entries agree for every unit quaternion: the matrix of the inverse is
  the transpose with the entry m32 replaced.
\<close>

lemma inverse_of_quaternion_other_entries:
  assumes "linalg_norm [x, y, z, w] = 1"
  shows "\<exists>a b. create_from_quaternion [x, y, z, w] = Returns a
           \<and> create_from_inverse_of_quaternion [x, y, z, w] = Returns b
           \<and> b = (transpose33 a)\<lparr>m32 := 2 * (y * z - w * x)\<rparr>
           \<and> m32 (transpose33 a) = 2 * (y * z + w * x)"
  using assms
  by (simp add: isclose_def create_from_quaternion_def
      create_from_inverse_of_quaternion_def transpose33_def Let_def)

section \<open>Applying a matrix to a vector\<close>






section \<open>The inverse of a matrix\<close>

lemma det33_np_dot33: "det33 (np_dot33 a b) = det33 a * det33 b"
  by (simp add: det33_def np_dot33_def algebra_simps)

lemma det33_identity: "det33 create_identity = 1"
  by (simp add: det33_def create_identity_def)

lemma linalg_inv_two_sided:
  assumes "det33 a \<noteq> 0" and "linalg_inv a = Returns b"
  shows "np_dot33 a b = create_identity \<and> np_dot33 b a = create_identity"
proof -
  define d where "d = det33 a"
  have d: "d \<noteq> 0" using assms(1) by (simp add: d_def)
  have b: "b = \<lparr>m11 = (m22 a * m33 a - m23 a * m32 a) / d,
         m12 = (m13 a * m32 a - m12 a * m33 a) / d,
         m13 = (m12 a * m23 a - m13 a * m22 a) / d,
         m21 = (m23 a * m31 a - m21 a * m33 a) / d,
         m22 = (m11 a * m33 a - m13 a * m31 a) / d,
         m23 = (m13 a * m21 a - m11 a * m23 a) / d,
         m31 = (m21 a * m32 a - m22 a * m31 a) / d,
         m32 = (m12 a * m31 a - m11 a * m32 a) / d,
         m33 = (m11 a * m22 a - m12 a * m21 a) / d\<rparr>"
    using assms by (simp add: linalg_inv_def d_def)
  have dd: "d = m11 a * (m22 a * m33 a - m23 a * m32 a)
     - m12 a * (m21 a * m33 a - m23 a * m31 a)
     + m13 a * (m21 a * m32 a - m22 a * m31 a)"
    by (simp add: d_def det33_def)
  have r11: "m11 (np_dot33 a b) = 1"
  proof -
    have "m11 (np_dot33 a b) =
        (m11 a * (m22 a * m33 a - m23 a * m32 a)
        + m12 a * (m23 a * m31 a - m21 a * m33 a)
        + m13 a * (m21 a * m32 a - m22 a * m31 a)) / d"
      by (simp add: b np_dot33_def add_divide_distrib)
    moreover have "m11 a * (m22 a * m33 a - m23 a * m32 a)
        + m12 a * (m23 a * m31 a - m21 a * m33 a)
        + m13 a * (m21 a * m32 a - m22 a * m31 a) = d"
      by (simp add: dd algebra_simps)
    ultimately show ?thesis using d by simp
  qed
  have r12: "m12 (np_dot33 a b) = 0"
  proof -
    have "m12 (np_dot33 a b) =
        (m11 a * (m13 a * m32 a - m12 a * m33 a)
        + m12 a * (m11 a * m33 a - m13 a * m31 a)
        + m13 a * (m12 a * m31 a - m11 a * m32 a)) / d"
      by (simp add: b np_dot33_def add_divide_distrib)
    moreover have "m11 a * (m13 a * m32 a - m12 a * m33 a)
        + m12 a * (m11 a * m33 a - m13 a * m31 a)
        + m13 a * (m12 a * m31 a - m11 a * m32 a) = 0"
      by (simp add: algebra_simps)
    ultimately show ?thesis using d by simp
  qed
  have r13: "m13 (np_dot33 a b) = 0"
  proof -
    have "m13 (np_dot33 a b) =
        (m11 a * (m12 a * m23 a - m13 a * m22 a)
        + m12 a * (m13 a * m21 a - m11 a * m23 a)
        + m13 a * (m11 a * m22 a - m12 a * m21 a)) / d"
      by (simp add: b np_dot33_def add_divide_distrib)
    moreover have "m11 a * (m12 a * m23 a - m13 a * m22 a)
        + m12 a * (m13 a * m21 a - m11 a * m23 a)
        + m13 a * (m11 a * m22 a - m12 a * m21 a) = 0"
      by (simp add: algebra_simps)
    ultimately show ?thesis using d by simp
  qed
  have r21: "m21 (np_dot33 a b) = 0"
  proof -
    have "m21 (np_dot33 a b) =
        (m21 a * (m22 a * m33 a - m23 a * m32 a)
        + m22 a * (m23 a * m31 a - m21 a * m33 a)
        + m23 a * (m21 a * m32 a - m22 a * m31 a)) / d"
      by (simp add: b np_dot33_def add_divide_distrib)
    moreover have "m21 a * (m22 a * m33 a - m23 a * m32 a)
        + m22 a * (m23 a * m31 a - m21 a * m33 a)
        + m23 a * (m21 a * m32 a - m22 a * m31 a) = 0"
      by (simp add: algebra_simps)
    ultimately show ?thesis using d by simp
  qed
  have r22: "m22 (np_dot33 a b) = 1"
  proof -
    have "m22 (np_dot33 a b) =
        (m21 a * (m13 a * m32 a - m12 a * m33 a)
        + m22 a * (m11 a * m33 a - m13 a * m31 a)
        + m23 a * (m12 a * m31 a - m11 a * m32 a)) / d"
      by (simp add: b np_dot33_def add_divide_distrib)
    moreover have "m21 a * (m13 a * m32 a - m12 a * m33 a)
        + m22 a * (m11 a * m33 a - m13 a * m31 a)
        + m23 a * (m12 a * m31 a - m11 a * m32 a) = d"
      by (simp add: dd algebra_simps)
    ultimately show ?thesis using d by simp
  qed
  have r23: "m23 (np_dot33 a b) = 0"
  proof -
    have "m23 (np_dot33 a b) =
        (m21 a * (m12 a * m23 a - m13 a * m22 a)
        + m22 a * (m13 a * m21 a - m11 a * m23 a)
        + m23 a * (m11 a * m22 a - m12 a * m21 a)) / d"
      by (simp add: b np_dot33_def add_divide_distrib)
    moreover have "m21 a * (m12 a * m23 a - m13 a * m22 a)
        + m22 a * (m13 a * m21 a - m11 a * m23 a)
        + m23 a * (m11 a * m22 a - m12 a * m21 a) = 0"
      by (simp add: algebra_simps)
    ultimately show ?thesis using d by simp
  qed
  have r31: "m31 (np_dot33 a b) = 0"
  proof -
    have "m31 (np_dot33 a b) =
        (m31 a * (m22 a * m33 a - m23 a * m32 a)
        + m32 a * (m23 a * m31 a - m21 a * m33 a)
        + m33 a * (m21 a * m32 a - m22 a * m31 a)) / d"
      by (simp add: b np_dot33_def add_divide_distrib)
    moreover have "m31 a * (m22 a * m33 a - m23 a * m32 a)
        + m32 a * (m23 a * m31 a - m21 a * m33 a)
        + m33 a * (m21 a * m32 a - m22 a * m31 a) = 0"
      by (simp add: algebra_simps)
    ultimately show ?thesis using d by simp
  qed
  have r32: "m32 (np_dot33 a b) = 0"
  proof -
    have "m32 (np_dot33 a b) =
        (m31 a * (m13 a * m32 a - m12 a * m33 a)
        + m32 a * (m11 a * m33 a - m13 a * m31 a)
        + m33 a * (m12 a * m31 a - m11 a * m32 a)) / d"
      by (simp add: b np_dot33_def add_divide_distrib)
    moreover have "m31 a * (m13 a * m32 a - m12 a * m33 a)
        + m32 a * (m11 a * m33 a - m13 a * m31 a)
        + m33 a * (m12 a * m31 a - m11 a * m32 a) = 0"
      by (simp add: algebra_simps)
    ultimately show ?thesis using d by simp
  qed
  have r33: "m33 (np_dot33 a b) = 1"
  proof -
    have "m33 (np_dot33 a b) =
        (m31 a * (m12 a * m23 a - m13 a * m22 a)
        + m32 a * (m13 a * m21 a - m11 a * m23 a)
        + m33 a * (m11 a * m22 a - m12 a * m21 a)) / d"
      by (simp add: b np_dot33_def add_divide_distrib)
    moreover have "m31 a * (m12 a * m23 a - m13 a * m22 a)
        + m32 a * (m13 a * m21 a - m11 a * m23 a)
        + m33 a * (m11 a * m22 a - m12 a * m21 a) = d"
      by (simp add: dd algebra_simps)
    ultimately show ?thesis using d by simp
  qed
  have l11: "m11 (np_dot33 b a) = 1"
  proof -
    have "m11 (np_dot33 b a) =
        ((m22 a * m33 a - m23 a * m32 a) * m11 a
        + (m13 a * m32 a - m12 a * m33 a) * m21 a
        + (m12 a * m23 a - m13 a * m22 a) * m31 a) / d"
      by (simp add: b np_dot33_def add_divide_distrib)
    moreover have "(m22 a * m33 a - m23 a * m32 a) * m11 a
        + (m13 a * m32 a - m12 a * m33 a) * m21 a
        + (m12 a * m23 a - m13 a * m22 a) * m31 a = d"
      by (simp add: dd algebra_simps)
    ultimately show ?thesis using d by simp
  qed
  have l12: "m12 (np_dot33 b a) = 0"
  proof -
    have "m12 (np_dot33 b a) =
        ((m22 a * m33 a - m23 a * m32 a) * m12 a
        + (m13 a * m32 a - m12 a * m33 a) * m22 a
        + (m12 a * m23 a - m13 a * m22 a) * m32 a) / d"
      by (simp add: b np_dot33_def add_divide_distrib)
    moreover have "(m22 a * m33 a - m23 a * m32 a) * m12 a
        + (m13 a * m32 a - m12 a * m33 a) * m22 a
        + (m12 a * m23 a - m13 a * m22 a) * m32 a = 0"
      by (simp add: algebra_simps)
    ultimately show ?thesis using d by simp
  qed
  have l13: "m13 (np_dot33 b a) = 0"
  proof -
    have "m13 (np_dot33 b a) =
        ((m22 a * m33 a - m23 a * m32 a) * m13 a
        + (m13 a * m32 a - m12 a * m33 a) * m23 a
        + (m12 a * m23 a - m13 a * m22 a) * m33 a) / d"
      by (simp add: b np_dot33_def add_divide_distrib)
    moreover have "(m22 a * m33 a - m23 a * m32 a) * m13 a
        + (m13 a * m32 a - m12 a * m33 a) * m23 a
        + (m12 a * m23 a - m13 a * m22 a) * m33 a = 0"
      by (simp add: algebra_simps)
    ultimately show ?thesis using d by simp
  qed
  have l21: "m21 (np_dot33 b a) = 0"
  proof -
    have "m21 (np_dot33 b a) =
        ((m23 a * m31 a - m21 a * m33 a) * m11 a
        + (m11 a * m33 a - m13 a * m31 a) * m21 a
        + (m13 a * m21 a - m11 a * m23 a) * m31 a) / d"
      by (simp add: b np_dot33_def add_divide_distrib)
    moreover have "(m23 a * m31 a - m21 a * m33 a) * m11 a
        + (m11 a * m33 a - m13 a * m31 a) * m21 a
        + (m13 a * m21 a - m11 a * m23 a) * m31 a = 0"
      by (simp add: algebra_simps)
    ultimately show ?thesis using d by simp
  qed
  have l22: "m22 (np_dot33 b a) = 1"
  proof -
    have "m22 (np_dot33 b a) =
        ((m23 a * m31 a - m21 a * m33 a) * m12 a
        + (m11 a * m33 a - m13 a * m31 a) * m22 a
        + (m13 a * m21 a - m11 a * m23 a) * m32 a) / d"
      by (simp add: b np_dot33_def add_divide_distrib)
    moreover have "(m23 a * m31 a - m21 a * m33 a) * m12 a
        + (m11 a * m33 a - m13 a * m31 a) * m22 a
        + (m13 a * m21 a - m11 a * m23 a) * m32 a = d"
      by (simp add: dd algebra_simps)
    ultimately show ?thesis using d by simp
  qed
  have l23: "m23 (np_dot33 b a) = 0"
  proof -
    have "m23 (np_dot33 b a) =
        ((m23 a * m31 a - m21 a * m33 a) * m13 a
        + (m11 a * m33 a - m13 a * m31 a) * m23 a
        + (m13 a * m21 a - m11 a * m23 a) * m33 a) / d"
      by (simp add: b np_dot33_def add_divide_distrib)
    moreover have "(m23 a * m31 a - m21 a * m33 a) * m13 a
        + (m11 a * m33 a - m13 a * m31 a) * m23 a
        + (m13 a * m21 a - m11 a * m23 a) * m33 a = 0"
      by (simp add: algebra_simps)
    ultimately show ?thesis using d by simp
  qed
  have l31: "m31 (np_dot33 b a) = 0"
  proof -
    have "m31 (np_dot33 b a) =
        ((m21 a * m32 a - m22 a * m31 a) * m11 a
        + (m12 a * m31 a - m11 a * m32 a) * m21 a
        + (m11 a * m22 a - m12 a * m21 a) * m31 a) / d"
      by (simp add: b np_dot33_def add_divide_distrib)
    moreover have "(m21 a * m32 a - m22 a * m31 a) * m11 a
        + (m12 a * m31 a - m11 a * m32 a) * m21 a
        + (m11 a * m22 a - m12 a * m21 a) * m31 a = 0"
      by (simp add: algebra_simps)
    ultimately show ?thesis using d by simp
  qed
  have l32: "m32 (np_dot33 b a) = 0"
  proof -
    have "m32 (np_dot33 b a) =
        ((m21 a * m32 a - m22 a * m31 a) * m12 a
        + (m12 a * m31 a - m11 a * m32 a) * m22 a
        + (m11 a * m22 a - m12 a * m21 a) * m32 a) / d"
      by (simp add: b np_dot33_def add_divide_distrib)
    moreover have "(m21 a * m32 a - m22 a * m31 a) * m12 a
        + (m12 a * m31 a - m11 a * m32 a) * m22 a
        + (m11 a * m22 a - m12 a * m21 a) * m32 a = 0"
      by (simp add: algebra_simps)
    ultimately show ?thesis using d by simp
  qed
  have l33: "m33 (np_dot33 b a) = 1"
  proof -
    have "m33 (np_dot33 b a) =
        ((m21 a * m32 a - m22 a * m31 a) * m13 a
        + (m12 a * m31 a - m11 a * m32 a) * m23 a
        + (m11 a * m22 a - m12 a * m21 a) * m33 a) / d"
      by (simp add: b np_dot33_def add_divide_distrib)
    moreover have "(m21 a * m32 a - m22 a * m31 a) * m13 a
        + (m12 a * m31 a - m11 a * m32 a) * m23 a
        + (m11 a * m22 a - m12 a * m21 a) * m33 a = d"
      by (simp add: dd algebra_simps)
    ultimately show ?thesis using d by simp
  qed
  have "np_dot33 a b = create_identity"
    using r11 r12 r13 r21 r22 r23 r31 r32 r33
    by (simp add: create_identity_def matrix33.equality)
  moreover have "np_dot33 b a = create_identity"
    using l11 l12 l13 l21 l22 l23 l31 l32 l33
    by (simp add: create_identity_def matrix33.equality)
  ultimately show ?thesis by simp
qed

lemma singular_has_no_inverse:
  assumes "det33 a = 0"
  shows "np_dot33 a b \<noteq> create_identity"
proof
  assume "np_dot33 a b = create_identity"
  then have "det33 (np_dot33 a b) = 1" by (simp add: det33_identity)
  with assms show False by (simp add: det33_np_dot33)
qed

text \<open>
  C8. \<^verbatim>\<open>inverse\<close> hands the matrix to the dense inverse of the numeric backend and
  passes on what that does. It raises exactly when the determinant of the matrix is zero,
  and what it raises then is the singular-matrix error \<^verbatim>\<open>LinAlgError\<close>; the matrix of
  zeros is such a matrix. A matrix of determinant zero has no inverse. For every other
  matrix it returns a matrix that multiplies with the argument to the identity, on
  either side.
\<close>

theorem inverse_raises_iff_singular:
  "inverse33 mat = linalg_inv mat
   \<and> ((\<exists>e. inverse33 mat = Raises e) \<longleftrightarrow> det33 mat = 0)
   \<and> (det33 mat = 0 \<longrightarrow>
        inverse33 mat = Raises LinAlgError \<and> (\<forall>n. multiply mat n \<noteq> create_identity))
   \<and> inverse33 \<lparr>m11 = 0, m12 = 0, m13 = 0, m21 = 0, m22 = 0, m23 = 0,
                  m31 = 0, m32 = 0, m33 = 0\<rparr> = Raises LinAlgError
   \<and> (det33 mat \<noteq> 0 \<longrightarrow>
        (\<exists>n. inverse33 mat = Returns n
            \<and> multiply mat n = create_identity \<and> multiply n mat = create_identity))"
proof -
  have nonsingular: "\<exists>n. inverse33 mat = Returns n
            \<and> multiply mat n = create_identity \<and> multiply n mat = create_identity"
    if "det33 mat \<noteq> 0"
  proof -
    from that obtain n where n: "linalg_inv mat = Returns n"
      by (simp add: linalg_inv_def)
    with that show ?thesis
      using linalg_inv_two_sided [of mat n] by (simp add: inverse33_def multiply_def)
  qed
  have singular: "inverse33 mat = Raises LinAlgError" if "det33 mat = 0"
    using that by (simp add: inverse33_def linalg_inv_def)
  have none: "multiply mat n \<noteq> create_identity" if "det33 mat = 0" for n
    using that singular_has_no_inverse [of mat n] by (simp add: multiply_def)
  have zero: "inverse33 \<lparr>m11 = 0, m12 = 0, m13 = 0, m21 = 0, m22 = 0, m23 = 0,
                  m31 = 0, m32 = 0, m33 = 0\<rparr> = Raises LinAlgError"
    by (simp add: inverse33_def linalg_inv_def det33_def)
  have iff: "(\<exists>e. inverse33 mat = Raises e) \<longleftrightarrow> det33 mat = 0"
    using singular nonsingular by (cases "det33 mat = 0") auto
  show ?thesis
    using nonsingular singular none zero iff by (simp add: inverse33_def)
qed

theorem inverse_raises_iff_singular_witness:
  "inverse33 \<lparr>m11 = 1, m12 = 2, m13 = 3, m21 = 4, m22 = 5, m23 = 6,
              m31 = 7, m32 = 8, m33 = 9\<rparr> = Raises LinAlgError
   \<and> (\<exists>n. inverse33 \<lparr>m11 = 2, m12 = 0, m13 = 0, m21 = 0, m22 = 1, m23 = 0,
                      m31 = 0, m32 = 0, m33 = 1\<rparr> = Returns n
         \<and> multiply \<lparr>m11 = 2, m12 = 0, m13 = 0, m21 = 0, m22 = 1, m23 = 0,
                      m31 = 0, m32 = 0, m33 = 1\<rparr> n = create_identity)"
proof -
  let ?s = "\<lparr>m11 = 1, m12 = 2, m13 = 3, m21 = 4, m22 = 5, m23 = 6,
              m31 = 7, m32 = 8, m33 = (9::real)\<rparr>"
  let ?g = "\<lparr>m11 = 2, m12 = 0, m13 = 0, m21 = 0, m22 = 1, m23 = 0,
              m31 = 0, m32 = 0, m33 = (1::real)\<rparr>"
  have s: "det33 ?s = 0" by (simp add: det33_def)
  have g: "det33 ?g \<noteq> 0" by (simp add: det33_def)
  from s have "inverse33 ?s = Raises LinAlgError"
    using inverse_raises_iff_singular [of ?s] by blast
  moreover from g have "\<exists>n. inverse33 ?g = Returns n \<and> multiply ?g n = create_identity"
    using inverse_raises_iff_singular [of ?g] by blast
  ultimately show ?thesis by blast
qed

section \<open>Rays\<close>







lemma linalg_norm_negated: "linalg_norm (map (\<lambda>x. x * (- 1)) d) = linalg_norm d"
  by (simp add: linalg_norm_def o_def)





text \<open>
  C10. Let r be a live array with the two rows origin and dir. \<^verbatim>\<open>ray.invert\<close> returns a
  new array, at the first free address, whose rows are origin and the negated dir; the
  array r still holds origin and dir, and no other address of the store changes. The
  negated direction has the norm of dir. \<^verbatim>\<open>ray.start\<close> and \<^verbatim>\<open>ray.direction\<close> return
  new arrays that hold row 0 and row 1, and change no other address.
\<close>

theorem ray_invert_frame:
  assumes "cells s r = Array2 [origin, dir]" and "r < next_addr s"
  shows "fst (ray_invert s r) = Returns (next_addr s)
     \<and> cells (snd (ray_invert s r)) (next_addr s) = Array2 [origin, map uminus dir]
     \<and> cells (snd (ray_invert s r)) r = Array2 [origin, dir]
     \<and> (\<forall>p. p \<noteq> next_addr s \<longrightarrow> cells (snd (ray_invert s r)) p = cells s p)
     \<and> linalg_norm (map uminus dir) = linalg_norm dir
     \<and> fst (ray_start s r) = Returns (next_addr s)
     \<and> cells (snd (ray_start s r)) (next_addr s) = Array1 origin
     \<and> (\<forall>p. p \<noteq> next_addr s \<longrightarrow> cells (snd (ray_start s r)) p = cells s p)
     \<and> fst (ray_direction s r) = Returns (next_addr s)
     \<and> cells (snd (ray_direction s r)) (next_addr s) = Array1 dir
     \<and> (\<forall>p. p \<noteq> next_addr s \<longrightarrow> cells (snd (ray_direction s r)) p = cells s p)"
proof -
  from assms(2) have fresh: "r \<noteq> next_addr s" by simp
  have inv: "ray_invert s r =
      (Returns (next_addr s),
       s\<lparr>cells := (cells s)(next_addr s := Array2 [origin, map uminus dir]),
         next_addr := Suc (next_addr s)\<rparr>)"
    using assms(1) by (simp add: ray_invert_def ndarray_copy_def alloc_def)
  have st: "ray_start s r =
      (Returns (next_addr s),
       s\<lparr>cells := (cells s)(next_addr s := Array1 origin), next_addr := Suc (next_addr s)\<rparr>)"
    using assms(1) by (simp add: ray_start_def alloc_def)
  have di: "ray_direction s r =
      (Returns (next_addr s),
       s\<lparr>cells := (cells s)(next_addr s := Array1 dir), next_addr := Suc (next_addr s)\<rparr>)"
    using assms(1) by (simp add: ray_direction_def alloc_def)
  have nrm: "linalg_norm (map uminus dir) = linalg_norm dir"
    using linalg_norm_negated [of dir] by simp
  show ?thesis
    unfolding inv st di using fresh assms(1) nrm by simp
qed

theorem ray_invert_frame_witness:
  "fst (ray_invert example_store 0) = Returns 1
   \<and> cells (snd (ray_invert example_store 0)) 1 = Array2 [[1, 2, 3], [0, 0, - 1]]
   \<and> cells (snd (ray_invert example_store 0)) 0 = Array2 [[1, 2, 3], [0, 0, 1]]
   \<and> cells (snd (ray_start example_store 0)) 1 = Array1 [1, 2, 3]
   \<and> cells (snd (ray_direction example_store 0)) 1 = Array1 [0, 0, 1]"
  using ray_invert_frame [of example_store 0 "[1, 2, 3]" "[0, 0, 1]"]
  by (simp add: example_store_def)

end
